theory Spec2Isabelle
  imports Main
begin

section \<open>Types and structural equality\<close>

text \<open>
  \<^verbatim>\<open>type Type = "Number" | "Boolean" | { tArg: Type, tRet: Type }\<close>:
  two string literals and one object shape, the function type.
\<close>

datatype Type = Number | Boolean | Function Type Type

text \<open>
  \<^verbatim>\<open>sameType\<close>: when either side is a string (\<open>Number\<close> or \<open>Boolean\<close>) the result is
  \<^verbatim>\<open>t1 === t2\<close>, which on a string and any other value holds only for the same string;
  when both sides are objects the two fields are compared recursively.
\<close>

fun sameType :: "Type \<Rightarrow> Type \<Rightarrow> bool" where
  "sameType Number Number = True"
| "sameType Number Boolean = False"
| "sameType Number (Function a2 r2) = False"
| "sameType Boolean Number = False"
| "sameType Boolean Boolean = True"
| "sameType Boolean (Function a2 r2) = False"
| "sameType (Function a1 r1) Number = False"
| "sameType (Function a1 r1) Boolean = False"
| "sameType (Function a1 r1) (Function a2 r2) = (sameType a1 a2 \<and> sameType r1 r2)"

section \<open>Errors\<close>

text \<open>
  The source has three \<^verbatim>\<open>throw Error(...)\<close> sites: in \<^verbatim>\<open>lookup\<close>, in \<^verbatim>\<open>check\<close> and in
  \<^verbatim>\<open>Call.infer\<close>. Each is a constructor here, carrying the values that the message
  interpolates; \<open>message\<close> renders the text that the source builds.
\<close>

datatype error =
    UnboundVariable string
  | TypeMismatch Type Type
  | NotAFunction Type

text \<open>
  \<^verbatim>\<open>JSON.stringify\<close> on a type: a string is printed between double quotes (character
  0x22), an object as its two fields in the order \<^verbatim>\<open>tArg\<close>, \<^verbatim>\<open>tRet\<close> in which every
  object literal of the source writes them.
\<close>

fun stringify :: "Type \<Rightarrow> string" where
  "stringify Number = CHR 0x22 # ''Number'' @ [CHR 0x22]"
| "stringify Boolean = CHR 0x22 # ''Boolean'' @ [CHR 0x22]"
| "stringify (Function a r) =
     ''{'' @ CHR 0x22 # ''tArg'' @ CHR 0x22 # '':'' @ stringify a @
     '','' @ CHR 0x22 # ''tRet'' @ CHR 0x22 # '':'' @ stringify r @ ''}''"

fun message :: "error \<Rightarrow> string" where
  "message (UnboundVariable x) = ''Unbound variable: '' @ x"
| "message (TypeMismatch expectedType inferredType) =
     ''Type mismatch: expected a '' @ stringify expectedType @
     '', but got a '' @ stringify inferredType"
| "message (NotAFunction tFun) =
     ''Type mismatch: expected a function, but got a '' @ stringify tFun"

section \<open>Contexts\<close>

text \<open>\<^verbatim>\<open>type Context = Map<string, Type>\<close>, read with \<^verbatim>\<open>get\<close> only.\<close>

type_synonym Context = "string \<rightharpoonup> Type"

definition lookup :: "Context \<Rightarrow> string \<Rightarrow> error + Type" where
  "lookup ctx x = (case ctx x of None \<Rightarrow> Inl (UnboundVariable x) | Some t \<Rightarrow> Inr t)"

text \<open>\<^verbatim>\<open>extend\<close> copies the map and sets \<open>x\<close> in the copy; the value returned is the copy.\<close>

definition extend :: "Context \<Rightarrow> string \<Rightarrow> Type \<Rightarrow> Context" where
  "extend ctx x t = ctx(x \<mapsto> t)"

section \<open>Expressions and inference\<close>

text \<open>
  One constructor per class implementing \<^verbatim>\<open>Expr\<close>. The numeric literal of \<^verbatim>\<open>Num\<close> is
  stored and never read, so its type is a parameter. \<^verbatim>\<open>Let\<close>, \<^verbatim>\<open>Plus\<close> and \<^verbatim>\<open>If\<close> carry a
  suffix because HOL has constants of these names.
\<close>

datatype 'n Expr =
    Num 'n
  | Bool bool
  | Let_expr string "'n Expr" "'n Expr"
  | Var string
  | Plus_expr "'n Expr" "'n Expr"
  | Or "'n Expr" "'n Expr"
  | Eq "'n Expr" "'n Expr"
  | If_expr "'n Expr" "'n Expr" "'n Expr"
  | Fun string Type "'n Expr"
  | Call "'n Expr" "'n Expr"
  | LetFun string string Type Type "'n Expr" "'n Expr"

text \<open>
  \<^verbatim>\<open>infer(ctx, expr)\<close> dispatches to the \<^verbatim>\<open>infer\<close> method of the node; \<^verbatim>\<open>check\<close> infers
  and compares. A \<^verbatim>\<open>throw\<close> is \<open>Inl\<close>, and every statement after a failing call is
  skipped, as the exception would.
\<close>

fun infer :: "Context \<Rightarrow> 'n Expr \<Rightarrow> error + Type"
and check :: "Context \<Rightarrow> 'n Expr \<Rightarrow> Type \<Rightarrow> error + unit" where
  "infer ctx (Num n) = Inr Number"
| "infer ctx (Bool b) = Inr Boolean"
| "infer ctx (Let_expr x e1 e2) =
     (case infer ctx e1 of Inl err \<Rightarrow> Inl err
      | Inr t1 \<Rightarrow> infer (extend ctx x t1) e2)"
| "infer ctx (Var x) = lookup ctx x"
| "infer ctx (Plus_expr left right) =
     (case check ctx left Number of Inl err \<Rightarrow> Inl err
      | Inr _ \<Rightarrow>
     (case check ctx right Number of Inl err \<Rightarrow> Inl err
      | Inr _ \<Rightarrow> Inr Number))"
| "infer ctx (Or left right) =
     (case check ctx left Boolean of Inl err \<Rightarrow> Inl err
      | Inr _ \<Rightarrow>
     (case check ctx right Boolean of Inl err \<Rightarrow> Inl err
      | Inr _ \<Rightarrow> Inr Boolean))"
| "infer ctx (Eq left right) =
     (case infer ctx left of Inl err \<Rightarrow> Inl err
      | Inr t \<Rightarrow>
     (case check ctx right t of Inl err \<Rightarrow> Inl err
      | Inr _ \<Rightarrow> Inr Boolean))"
| "infer ctx (If_expr condition thenBranch elseBranch) =
     (case check ctx condition Boolean of Inl err \<Rightarrow> Inl err
      | Inr _ \<Rightarrow>
     (case infer ctx thenBranch of Inl err \<Rightarrow> Inl err
      | Inr t \<Rightarrow>
     (case check ctx elseBranch t of Inl err \<Rightarrow> Inl err
      | Inr _ \<Rightarrow> Inr t)))"
| "infer ctx (Fun x tx body) =
     (case infer (extend ctx x tx) body of Inl err \<Rightarrow> Inl err
      | Inr tBody \<Rightarrow> Inr (Function tx tBody))"
| "infer ctx (Call func arg) =
     (case infer ctx func of Inl err \<Rightarrow> Inl err
      | Inr tFun \<Rightarrow>
     (case tFun of
        Function tArg tRet \<Rightarrow>
          (case check ctx arg tArg of Inl err \<Rightarrow> Inl err
           | Inr _ \<Rightarrow> Inr tRet)
      | _ \<Rightarrow> Inl (NotAFunction tFun)))"
| "infer ctx (LetFun f x tx tRet functionBody letBody) =
     (let tf = Function tx tRet;
          functionBodyContext = extend (extend ctx f tf) x tx
      in case check functionBodyContext functionBody tRet of Inl err \<Rightarrow> Inl err
         | Inr _ \<Rightarrow>
           (let letBodyContext = extend ctx f tf
            in infer letBodyContext letBody))"
| "check ctx expr expectedType =
     (case infer ctx expr of Inl err \<Rightarrow> Inl err
      | Inr inferredType \<Rightarrow>
          if \<not> sameType expectedType inferredType
          then Inl (TypeMismatch expectedType inferredType)
          else Inr ())"

section \<open>Contexts as objects\<close>

text \<open>
  A \<^verbatim>\<open>Map\<close> is an object, passed by reference, and \<^verbatim>\<open>set\<close> updates it in place. To
  reason about what \<^verbatim>\<open>extend\<close> does to the map it is given, the maps allocated so far
  are kept in a heap, a reference is an index into it, and \<^verbatim>\<open>new Map\<close> allocates the
  next index. The functions below are the source once more, with the heap passed
  through every call; an exception leaves the heap as it was when it was thrown.
  A reference that the program holds points to an allocated map, \<open>ctx < length h\<close>; the
  theorems about these functions assume it of the context they are given.
\<close>

type_synonym ref = nat
type_synonym heap = "Context list"

definition lookup_ref :: "heap \<Rightarrow> ref \<Rightarrow> string \<Rightarrow> error + Type" where
  "lookup_ref h ctx x =
     (case (h ! ctx) x of None \<Rightarrow> Inl (UnboundVariable x) | Some t \<Rightarrow> Inr t)"

definition new_Map :: "heap \<Rightarrow> ref \<Rightarrow> ref \<times> heap" where
  "new_Map h ctx = (length h, h @ [h ! ctx])"

definition Map_set :: "heap \<Rightarrow> ref \<Rightarrow> string \<Rightarrow> Type \<Rightarrow> heap" where
  "Map_set h m x t = h[m := (h ! m)(x \<mapsto> t)]"

definition extend_ref :: "heap \<Rightarrow> ref \<Rightarrow> string \<Rightarrow> Type \<Rightarrow> ref \<times> heap" where
  "extend_ref h ctx x t =
     (case new_Map h ctx of (extended, h1) \<Rightarrow>
        (extended, Map_set h1 extended x t))"

fun infer_ref :: "heap \<Rightarrow> ref \<Rightarrow> 'n Expr \<Rightarrow> (error + Type) \<times> heap"
and check_ref :: "heap \<Rightarrow> ref \<Rightarrow> 'n Expr \<Rightarrow> Type \<Rightarrow> (error + unit) \<times> heap" where
  "infer_ref h ctx (Num n) = (Inr Number, h)"
| "infer_ref h ctx (Bool b) = (Inr Boolean, h)"
| "infer_ref h ctx (Let_expr x e1 e2) =
     (case infer_ref h ctx e1 of
        (Inl err, h1) \<Rightarrow> (Inl err, h1)
      | (Inr t1, h1) \<Rightarrow>
          (case extend_ref h1 ctx x t1 of (extended, h2) \<Rightarrow>
             infer_ref h2 extended e2))"
| "infer_ref h ctx (Var x) = (lookup_ref h ctx x, h)"
| "infer_ref h ctx (Plus_expr left right) =
     (case check_ref h ctx left Number of
        (Inl err, h1) \<Rightarrow> (Inl err, h1)
      | (Inr _, h1) \<Rightarrow>
          (case check_ref h1 ctx right Number of
             (Inl err, h2) \<Rightarrow> (Inl err, h2)
           | (Inr _, h2) \<Rightarrow> (Inr Number, h2)))"
| "infer_ref h ctx (Or left right) =
     (case check_ref h ctx left Boolean of
        (Inl err, h1) \<Rightarrow> (Inl err, h1)
      | (Inr _, h1) \<Rightarrow>
          (case check_ref h1 ctx right Boolean of
             (Inl err, h2) \<Rightarrow> (Inl err, h2)
           | (Inr _, h2) \<Rightarrow> (Inr Boolean, h2)))"
| "infer_ref h ctx (Eq left right) =
     (case infer_ref h ctx left of
        (Inl err, h1) \<Rightarrow> (Inl err, h1)
      | (Inr t, h1) \<Rightarrow>
          (case check_ref h1 ctx right t of
             (Inl err, h2) \<Rightarrow> (Inl err, h2)
           | (Inr _, h2) \<Rightarrow> (Inr Boolean, h2)))"
| "infer_ref h ctx (If_expr condition thenBranch elseBranch) =
     (case check_ref h ctx condition Boolean of
        (Inl err, h1) \<Rightarrow> (Inl err, h1)
      | (Inr _, h1) \<Rightarrow>
          (case infer_ref h1 ctx thenBranch of
             (Inl err, h2) \<Rightarrow> (Inl err, h2)
           | (Inr t, h2) \<Rightarrow>
               (case check_ref h2 ctx elseBranch t of
                  (Inl err, h3) \<Rightarrow> (Inl err, h3)
                | (Inr _, h3) \<Rightarrow> (Inr t, h3))))"
| "infer_ref h ctx (Fun x tx body) =
     (case extend_ref h ctx x tx of (extended, h1) \<Rightarrow>
        (case infer_ref h1 extended body of
           (Inl err, h2) \<Rightarrow> (Inl err, h2)
         | (Inr tBody, h2) \<Rightarrow> (Inr (Function tx tBody), h2)))"
| "infer_ref h ctx (Call func arg) =
     (case infer_ref h ctx func of
        (Inl err, h1) \<Rightarrow> (Inl err, h1)
      | (Inr tFun, h1) \<Rightarrow>
          (case tFun of
             Function tArg tRet \<Rightarrow>
               (case check_ref h1 ctx arg tArg of
                  (Inl err, h2) \<Rightarrow> (Inl err, h2)
                | (Inr _, h2) \<Rightarrow> (Inr tRet, h2))
           | _ \<Rightarrow> (Inl (NotAFunction tFun), h1)))"
| "infer_ref h ctx (LetFun f x tx tRet functionBody letBody) =
     (let tf = Function tx tRet in
      (case extend_ref h ctx f tf of (withF, h1) \<Rightarrow>
        (case extend_ref h1 withF x tx of (functionBodyContext, h2) \<Rightarrow>
          (case check_ref h2 functionBodyContext functionBody tRet of
             (Inl err, h3) \<Rightarrow> (Inl err, h3)
           | (Inr _, h3) \<Rightarrow>
               (case extend_ref h3 ctx f tf of (letBodyContext, h4) \<Rightarrow>
                  infer_ref h4 letBodyContext letBody)))))"
| "check_ref h ctx expr expectedType =
     (case infer_ref h ctx expr of
        (Inl err, h1) \<Rightarrow> (Inl err, h1)
      | (Inr inferredType, h1) \<Rightarrow>
          (if \<not> sameType expectedType inferredType
           then Inl (TypeMismatch expectedType inferredType)
           else Inr (), h1))"

section \<open>Structural equality and the rendering of errors\<close>

lemma sameType_eq: "sameType t1 t2 = (t1 = t2)"
  by (induction t1 t2 rule: sameType.induct) simp_all

text \<open>
  The text printed for a type determines the type, also when more text follows it: no
  printed type is a proper prefix of another.
\<close>

lemma stringify_append_inj:
  "stringify t1 @ s1 = stringify t2 @ s2 \<Longrightarrow> t1 = t2 \<and> s1 = s2"
proof (induction t1 arbitrary: t2 s1 s2)
  case Number
  then show ?case by (cases t2) simp_all
next
  case Boolean
  then show ?case by (cases t2) simp_all
next
  case (Function a r)
  show ?case
  proof (cases t2)
    case (Function a' r')
    with Function.prems
    have "stringify a @
            ('','' @ CHR 0x22 # ''tRet'' @ CHR 0x22 # '':'' @ stringify r @ ''}'' @ s1)
        = stringify a' @
            ('','' @ CHR 0x22 # ''tRet'' @ CHR 0x22 # '':'' @ stringify r' @ ''}'' @ s2)"
      by simp
    from Function.IH(1) [OF this] have a: "a = a'"
      and "stringify r @ (''}'' @ s1) = stringify r' @ (''}'' @ s2)"
      by simp_all
    from Function.IH(2) [OF this(2)] a Function show ?thesis by simp
  qed (use Function.prems in simp_all)
qed

lemma stringify_inj: "stringify t1 = stringify t2 \<Longrightarrow> t1 = t2"
  using stringify_append_inj [of t1 "[]" t2 "[]"] by simp

lemma stringify_first: "\<exists>c s. stringify t = c # s \<and> c \<noteq> CHR ''f''"
  by (cases t) simp_all

lemma message_NotAFunction_TypeMismatch:
  "message (NotAFunction t) \<noteq> message (TypeMismatch e a)"
proof -
  obtain c s where "stringify e = c # s" "c \<noteq> CHR ''f''"
    using stringify_first by blast
  then show ?thesis by simp
qed

text \<open>
  The three constructors lose nothing of the thrown \<^verbatim>\<open>Error\<close>: the message determines
  the throw site and the values it interpolates.
\<close>

lemma message_inj: "message e1 = message e2 \<Longrightarrow> e1 = e2"
proof (cases e1; cases e2)
  fix e a e' a'
  assume eq: "message e1 = message e2" and e1: "e1 = TypeMismatch e a"
    and e2: "e2 = TypeMismatch e' a'"
  then have "stringify e @ ('', but got a '' @ stringify a)
      = stringify e' @ ('', but got a '' @ stringify a')"
    by simp
  from stringify_append_inj [OF this] e1 e2 show "e1 = e2"
    by (simp add: stringify_inj)
next
  fix e a t
  assume "message e1 = message e2" "e1 = TypeMismatch e a" "e2 = NotAFunction t"
  then show "e1 = e2"
    using message_NotAFunction_TypeMismatch [of t e a] by simp
next
  fix e a t
  assume "message e1 = message e2" "e2 = TypeMismatch e a" "e1 = NotAFunction t"
  then show "e1 = e2"
    using message_NotAFunction_TypeMismatch [of t e a] by simp
qed (auto dest: stringify_inj)

section \<open>The heap-passing functions compute the pure ones\<close>

text \<open>
  \<^verbatim>\<open>extend\<close> allocates one map, whose contents are those of \<open>ctx\<close> with \<open>x\<close> set, and
  writes to no other.
\<close>

lemma extend_ref_eq: "extend_ref h ctx x t = (length h, h @ [extend (h ! ctx) x t])"
  by (simp add: extend_ref_def new_Map_def Map_set_def extend_def)

lemma check_ref_of:
  "infer_ref h ctx e = (infer c e, h') \<Longrightarrow> check_ref h ctx e t = (check c e t, h')"
  by (simp split: sum.splits)

text \<open>
  Inference through references returns what \<open>infer\<close> returns on the contents of the
  context, and only appends to the heap.
\<close>

lemma infer_ref_infer:
  "ctx < length h \<Longrightarrow> \<exists>zs. infer_ref h ctx e = (infer (h ! ctx) e, h @ zs)"
proof (induction e arbitrary: h ctx)
  case (Num n)
  then show ?case by simp
next
  case (Bool b)
  then show ?case by simp
next
  case (Var x)
  then show ?case by (simp add: lookup_ref_def lookup_def)
next
  case (Let_expr x e1 e2)
  from Let_expr.IH(1) [OF Let_expr.prems] obtain zs1
    where 1: "infer_ref h ctx e1 = (infer (h ! ctx) e1, h @ zs1)" by blast
  show ?case
  proof (cases "infer (h ! ctx) e1")
    case (Inl err)
    with 1 show ?thesis by simp
  next
    case (Inr t1)
    let ?h2 = "(h @ zs1) @ [extend (h ! ctx) x t1]"
    have "length (h @ zs1) < length ?h2" by simp
    from Let_expr.IH(2) [OF this] obtain zs2
      where "infer_ref ?h2 (length (h @ zs1)) e2 = (infer (?h2 ! length (h @ zs1)) e2, ?h2 @ zs2)"
      by blast
    with 1 Inr Let_expr.prems show ?thesis
      by (simp add: extend_ref_eq nth_append)
  qed
next
  case (Plus_expr l r)
  from Plus_expr.IH(1) [OF Plus_expr.prems] obtain zs1
    where 1: "infer_ref h ctx l = (infer (h ! ctx) l, h @ zs1)" by blast
  from Plus_expr.prems have "ctx < length (h @ zs1)" by simp
  from Plus_expr.IH(2) [OF this] Plus_expr.prems obtain zs2
    where 2: "infer_ref (h @ zs1) ctx r = (infer (h ! ctx) r, h @ zs1 @ zs2)"
    by (auto simp: nth_append)
  show ?case
    using check_ref_of [OF 1] check_ref_of [OF 2]
    by (simp del: check.simps check_ref.simps split: sum.splits)
next
  case (Or l r)
  from Or.IH(1) [OF Or.prems] obtain zs1
    where 1: "infer_ref h ctx l = (infer (h ! ctx) l, h @ zs1)" by blast
  from Or.prems have "ctx < length (h @ zs1)" by simp
  from Or.IH(2) [OF this] Or.prems obtain zs2
    where 2: "infer_ref (h @ zs1) ctx r = (infer (h ! ctx) r, h @ zs1 @ zs2)"
    by (auto simp: nth_append)
  show ?case
    using check_ref_of [OF 1] check_ref_of [OF 2]
    by (simp del: check.simps check_ref.simps split: sum.splits)
next
  case (Eq l r)
  from Eq.IH(1) [OF Eq.prems] obtain zs1
    where 1: "infer_ref h ctx l = (infer (h ! ctx) l, h @ zs1)" by blast
  from Eq.prems have "ctx < length (h @ zs1)" by simp
  from Eq.IH(2) [OF this] Eq.prems obtain zs2
    where 2: "infer_ref (h @ zs1) ctx r = (infer (h ! ctx) r, h @ zs1 @ zs2)"
    by (auto simp: nth_append)
  show ?case
    using 1 check_ref_of [OF 2]
    by (simp del: check.simps check_ref.simps split: sum.splits)
next
  case (If_expr c th el)
  from If_expr.IH(1) [OF If_expr.prems] obtain zs1
    where 1: "infer_ref h ctx c = (infer (h ! ctx) c, h @ zs1)" by blast
  from If_expr.prems have "ctx < length (h @ zs1)" by simp
  from If_expr.IH(2) [OF this] If_expr.prems obtain zs2
    where 2: "infer_ref (h @ zs1) ctx th = (infer (h ! ctx) th, h @ zs1 @ zs2)"
    by (auto simp: nth_append)
  from If_expr.prems have "ctx < length (h @ zs1 @ zs2)" by simp
  from If_expr.IH(3) [OF this] If_expr.prems obtain zs3
    where 3: "infer_ref (h @ zs1 @ zs2) ctx el = (infer (h ! ctx) el, h @ zs1 @ zs2 @ zs3)"
    by (auto simp: nth_append)
  show ?case
    using check_ref_of [OF 1] 2 check_ref_of [OF 3]
    by (simp del: check.simps check_ref.simps split: sum.splits)
next
  case (Fun x tx body)
  let ?h1 = "h @ [extend (h ! ctx) x tx]"
  have "length h < length ?h1" by simp
  from Fun.IH [OF this] obtain zs
    where "infer_ref ?h1 (length h) body = (infer (extend (h ! ctx) x tx) body, ?h1 @ zs)"
    by auto
  then show ?case
    by (simp add: extend_ref_eq split: sum.splits)
next
  case (Call func arg)
  from Call.IH(1) [OF Call.prems] obtain zs1
    where 1: "infer_ref h ctx func = (infer (h ! ctx) func, h @ zs1)" by blast
  from Call.prems have "ctx < length (h @ zs1)" by simp
  from Call.IH(2) [OF this] Call.prems obtain zs2
    where 2: "infer_ref (h @ zs1) ctx arg = (infer (h ! ctx) arg, h @ zs1 @ zs2)"
    by (auto simp: nth_append)
  show ?case
    using 1 check_ref_of [OF 2]
    by (simp del: check.simps check_ref.simps split: sum.splits Type.splits)
next
  case (LetFun f x tx tRet functionBody letBody)
  let ?tf = "Function tx tRet"
  let ?cf = "extend (h ! ctx) f ?tf"
  let ?h2 = "h @ [?cf, extend ?cf x tx]"
  have "Suc (length h) < length ?h2" by simp
  from LetFun.IH(1) [OF this] obtain zs1
    where 1: "infer_ref ?h2 (Suc (length h)) functionBody
               = (infer (extend ?cf x tx) functionBody, ?h2 @ zs1)"
    by (auto simp: nth_append)
  let ?h4 = "?h2 @ zs1 @ [?cf]"
  have "length (?h2 @ zs1) < length ?h4" by simp
  from LetFun.IH(2) [OF this] obtain zs2
    where 2: "infer_ref ?h4 (length (?h2 @ zs1)) letBody = (infer ?cf letBody, ?h4 @ zs2)"
    by (auto simp: nth_append)
  show ?case
    using check_ref_of [OF 1] 2 LetFun.prems
    by (simp add: extend_ref_eq nth_append Let_def del: check.simps check_ref.simps split: sum.splits)
qed

section \<open>Properties of the type checker\<close>

text \<open>
  C4. \<open>sameType\<close> holds exactly for two types of the same shape whose components, for
  two function types, are recursively the same: it is equality of the type terms. Two
  function types built separately from equal components are the same type, and two
  function types with different result types are not. (\<open>sameType\<close> never compares two
  objects with \<^verbatim>\<open>===\<close>, so the identity of a type object plays no part.)
\<close>

theorem sameType_structural:
  "sameType t1 t2 = (t1 = t2)
   \<and> sameType (Function a1 r1) (Function a2 r2) = (sameType a1 a2 \<and> sameType r1 r2)
   \<and> sameType (Function a r) (Function a r)
   \<and> (r1 \<noteq> r2 \<longrightarrow> \<not> sameType (Function a1 r1) (Function a2 r2))"
  by (simp add: sameType_eq)

theorem sameType_structural_witness:
  "Number \<noteq> Boolean
   \<and> sameType (Function Number (Function Boolean Number))
        (Function Number (Function Boolean Number))
   \<and> \<not> sameType (Function Number Number) (Function Number Boolean)"
  using sameType_structural [of "Function Number Number" "Function Number Boolean"
      Number Number Number Boolean Number "Function Boolean Number"]
  by simp

text \<open>
  C1. When the callee of a \<open>Call\<close> infers to a type that is not a function type,
  inference fails with \<open>NotAFunction\<close> carrying that type. This is not the error of
  \<open>check\<close>: its message, "Type mismatch: expected a function, but got a ..." followed by
  the printed type, differs from the message of every \<open>TypeMismatch\<close> and determines
  the type. When the callee infers to \<open>Function tArg tRet\<close>, the argument is checked
  against \<open>tArg\<close>; an error of that check is the error of the call, and otherwise the
  call has type \<open>tRet\<close>.
\<close>

theorem Call_infer_rule:
  assumes "infer ctx func = Inr tFun"
  shows "((\<forall>tArg tRet. tFun \<noteq> Function tArg tRet) \<longrightarrow>
            infer ctx (Call func arg) = Inl (NotAFunction tFun)
          \<and> (\<forall>expected actual.
                infer ctx (Call func arg) \<noteq> Inl (TypeMismatch expected actual)
              \<and> message (NotAFunction tFun) \<noteq> message (TypeMismatch expected actual))
          \<and> message (NotAFunction tFun)
              = ''Type mismatch: expected a function, but got a '' @ stringify tFun
          \<and> (\<forall>t. message (NotAFunction t) = message (NotAFunction tFun) \<longrightarrow> t = tFun))
       \<and> (\<forall>tArg tRet. tFun = Function tArg tRet \<longrightarrow>
            (\<forall>err. check ctx arg tArg = Inl err \<longrightarrow> infer ctx (Call func arg) = Inl err)
          \<and> (check ctx arg tArg = Inr () \<longrightarrow> infer ctx (Call func arg) = Inr tRet))"
proof -
  have msg: "message (NotAFunction tFun)
      = ''Type mismatch: expected a function, but got a '' @ stringify tFun"
    by simp
  have differs: "\<forall>expected actual.
      message (NotAFunction tFun) \<noteq> message (TypeMismatch expected actual)"
    using message_NotAFunction_TypeMismatch by blast
  have carries: "\<forall>t. message (NotAFunction t) = message (NotAFunction tFun) \<longrightarrow> t = tFun"
    using message_inj by blast
  have not_fun: "(\<forall>tArg tRet. tFun \<noteq> Function tArg tRet) \<longrightarrow>
      infer ctx (Call func arg) = Inl (NotAFunction tFun)"
    using assms by (cases tFun) simp_all
  then have other: "(\<forall>tArg tRet. tFun \<noteq> Function tArg tRet) \<longrightarrow>
      (\<forall>expected actual. infer ctx (Call func arg) \<noteq> Inl (TypeMismatch expected actual))"
    by simp
  have is_fun: "\<forall>tArg tRet. tFun = Function tArg tRet \<longrightarrow>
            (\<forall>err. check ctx arg tArg = Inl err \<longrightarrow> infer ctx (Call func arg) = Inl err)
          \<and> (check ctx arg tArg = Inr () \<longrightarrow> infer ctx (Call func arg) = Inr tRet)"
    using assms by (simp del: check.simps)
  from not_fun other is_fun msg differs carries show ?thesis
    by blast
qed

theorem Call_infer_rule_witness:
  "infer Map.empty (Num (1::int)) = Inr Number
   \<and> infer Map.empty (Call (Num (1::int)) (Num 1)) = Inl (NotAFunction Number)
   \<and> infer Map.empty (Fun ''x'' Number (Var ''x'') :: int Expr) = Inr (Function Number Number)
   \<and> infer Map.empty (Call (Fun ''x'' Number (Var ''x'')) (Num (1::int))) = Inr Number
   \<and> infer Map.empty (Call (Fun ''x'' Number (Var ''x'')) (Bool True :: int Expr))
       = Inl (TypeMismatch Number Boolean)"
  using Call_infer_rule [of Map.empty "Num (1::int)" Number "Num 1"]
    Call_infer_rule [of Map.empty "Fun ''x'' Number (Var ''x'') :: int Expr"
      "Function Number Number" "Num 1"]
    Call_infer_rule [of Map.empty "Fun ''x'' Number (Var ''x'') :: int Expr"
      "Function Number Number" "Bool True"]
  by (simp add: extend_def lookup_def)

text \<open>
  C2. \<open>LetFun f x tx tRet body rest\<close> checks \<open>body\<close> against \<open>tRet\<close> in the context
  extended with \<open>f\<close> at \<open>Function tx tRet\<close> and then with \<open>x\<close> at \<open>tx\<close>: an error of
  inferring the body there is the error of the node, and a body whose type \<open>t\<close> there
  differs from \<open>tRet\<close> is rejected with \<open>TypeMismatch tRet t\<close>. Only when the body has
  type \<open>tRet\<close> is \<open>rest\<close> inferred, in the context extended with \<open>f\<close> only, and its
  outcome is the outcome of the node. In the body \<open>x\<close> has type \<open>tx\<close> and (for
  \<open>x \<noteq> f\<close>) \<open>f\<close> has its function type; in \<open>rest\<close> the name \<open>x\<close> means what it meant
  outside. The recursive function of the specification's scenario 6 has type \<open>Number\<close>.
\<close>

theorem LetFun_infer_rule:
  "infer ctx (LetFun f x tx tRet body rest) =
     (case check (extend (extend ctx f (Function tx tRet)) x tx) body tRet of
        Inl err \<Rightarrow> Inl err
      | Inr _ \<Rightarrow> infer (extend ctx f (Function tx tRet)) rest)
   \<and> (\<forall>err. infer (extend (extend ctx f (Function tx tRet)) x tx) body = Inl err \<longrightarrow>
        infer ctx (LetFun f x tx tRet body rest) = Inl err)
   \<and> (\<forall>t. infer (extend (extend ctx f (Function tx tRet)) x tx) body = Inr t \<and> t \<noteq> tRet
        \<longrightarrow> infer ctx (LetFun f x tx tRet body rest) = Inl (TypeMismatch tRet t))
   \<and> (infer (extend (extend ctx f (Function tx tRet)) x tx) body = Inr tRet \<longrightarrow>
        infer ctx (LetFun f x tx tRet body rest)
          = infer (extend ctx f (Function tx tRet)) rest)
   \<and> lookup (extend (extend ctx f (Function tx tRet)) x tx) x = Inr tx
   \<and> (x \<noteq> f \<longrightarrow>
        lookup (extend (extend ctx f (Function tx tRet)) x tx) f = Inr (Function tx tRet)
      \<and> lookup (extend ctx f (Function tx tRet)) x = lookup ctx x)
   \<and> lookup (extend ctx f (Function tx tRet)) f = Inr (Function tx tRet)
   \<and> infer Map.empty
        (LetFun ''f'' ''x'' Number Number
          (If_expr (Eq (Var ''x'') (Num (10::int))) (Var ''x'')
             (Plus_expr (Var ''x'') (Call (Var ''f'') (Plus_expr (Var ''x'') (Num 1)))))
          (Call (Var ''f'') (Num 8)))
      = Inr Number"
proof -
  let ?body_ctx = "extend (extend ctx f (Function tx tRet)) x tx"
  let ?rest_ctx = "extend ctx f (Function tx tRet)"
  have rule: "infer ctx (LetFun f x tx tRet body rest) =
     (case check ?body_ctx body tRet of
        Inl err \<Rightarrow> Inl err
      | Inr _ \<Rightarrow> infer ?rest_ctx rest)"
    by (simp add: Let_def del: check.simps split: sum.splits)
  have body_error: "\<forall>err. infer ?body_ctx body = Inl err \<longrightarrow>
      infer ctx (LetFun f x tx tRet body rest) = Inl err"
    by (simp add: Let_def)
  have body_mismatch: "\<forall>t. infer ?body_ctx body = Inr t \<and> t \<noteq> tRet \<longrightarrow>
      infer ctx (LetFun f x tx tRet body rest) = Inl (TypeMismatch tRet t)"
  proof (intro allI impI)
    fix t
    assume "infer ?body_ctx body = Inr t \<and> t \<noteq> tRet"
    then have "infer ?body_ctx body = Inr t" and "\<not> sameType tRet t"
      by (auto simp: sameType_eq)
    then show "infer ctx (LetFun f x tx tRet body rest) = Inl (TypeMismatch tRet t)"
      by (simp add: Let_def)
  qed
  have body_ok: "infer ?body_ctx body = Inr tRet \<longrightarrow>
      infer ctx (LetFun f x tx tRet body rest) = infer ?rest_ctx rest"
    by (simp add: Let_def sameType_eq)
  have in_body: "lookup ?body_ctx x = Inr tx"
    by (simp add: extend_def lookup_def)
  have f_in_body: "x \<noteq> f \<longrightarrow>
        lookup ?body_ctx f = Inr (Function tx tRet) \<and> lookup ?rest_ctx x = lookup ctx x"
    by (simp add: extend_def lookup_def)
  have f_in_rest: "lookup ?rest_ctx f = Inr (Function tx tRet)"
    by (simp add: extend_def lookup_def)
  have scenario: "infer Map.empty
        (LetFun ''f'' ''x'' Number Number
          (If_expr (Eq (Var ''x'') (Num (10::int))) (Var ''x'')
             (Plus_expr (Var ''x'') (Call (Var ''f'') (Plus_expr (Var ''x'') (Num 1)))))
          (Call (Var ''f'') (Num 8)))
      = Inr Number"
    by (simp add: extend_def lookup_def)
  from rule body_error body_mismatch body_ok in_body f_in_body f_in_rest scenario
  show ?thesis by blast
qed

theorem LetFun_infer_rule_witness:
  "''x'' \<noteq> ''sumTo10''
   \<and> infer (extend (extend Map.empty ''sumTo10'' (Function Number Number)) ''x'' Number)
        (Bool True :: int Expr) = Inr Boolean
   \<and> Boolean \<noteq> Number
   \<and> infer Map.empty
        (LetFun ''sumTo10'' ''x'' Number Number (Bool True)
           (Call (Var ''sumTo10'') (Num (8::int))))
       = Inl (TypeMismatch Number Boolean)
   \<and> infer Map.empty
        (LetFun ''sumTo10'' ''x'' Number Number (Var ''y'')
           (Call (Var ''sumTo10'') (Num (8::int))))
       = Inl (UnboundVariable ''y'')
   \<and> infer Map.empty
        (LetFun ''sumTo10'' ''x'' Number Number (Var ''x'') (Var ''x'') :: int Expr)
       = Inl (UnboundVariable ''x'')
   \<and> infer Map.empty
        (LetFun ''sumTo10'' ''x'' Number Number (Var ''x'') (Var ''sumTo10'') :: int Expr)
       = Inr (Function Number Number)"
  using LetFun_infer_rule [of Map.empty "''sumTo10''" "''x''" Number Number
      "Bool True :: int Expr" "Call (Var ''sumTo10'') (Num 8)"]
    LetFun_infer_rule [of Map.empty "''sumTo10''" "''x''" Number Number
      "Var ''y'' :: int Expr" "Call (Var ''sumTo10'') (Num 8)"]
    LetFun_infer_rule [of Map.empty "''sumTo10''" "''x''" Number Number
      "Var ''x'' :: int Expr" "Var ''x''"]
    LetFun_infer_rule [of Map.empty "''sumTo10''" "''x''" Number Number
      "Var ''x'' :: int Expr" "Var ''sumTo10''"]
  by (simp add: extend_def lookup_def)

text \<open>
  C3. \<open>check ctx e expected\<close> infers the type of \<open>e\<close>. An error of that inference is the
  error of the check. When inference gives a type, the check fails with
  \<open>TypeMismatch expected actual\<close> exactly when \<open>sameType\<close> rejects the two types, that
  is when they differ, and returns unit exactly when they are the same. Run through
  references, the check returns the same result and leaves every map allocated before it
  as it was.
\<close>

theorem check_rule:
  "(case infer ctx e of
      Inl err \<Rightarrow> check ctx e expected = Inl err
    | Inr actual \<Rightarrow>
        (check ctx e expected = Inl (TypeMismatch expected actual))
          = (\<not> sameType expected actual)
      \<and> (check ctx e expected = Inr ()) = sameType expected actual
      \<and> sameType expected actual = (expected = actual))
   \<and> (\<forall>h r. r < length h \<longrightarrow>
         fst (check_ref h r e expected) = check (h ! r) e expected
       \<and> (\<forall>q<length h. snd (check_ref h r e expected) ! q = h ! q))"
proof -
  have pure: "case infer ctx e of
      Inl err \<Rightarrow> check ctx e expected = Inl err
    | Inr actual \<Rightarrow>
        (check ctx e expected = Inl (TypeMismatch expected actual))
          = (\<not> sameType expected actual)
      \<and> (check ctx e expected = Inr ()) = sameType expected actual
      \<and> sameType expected actual = (expected = actual)"
    by (simp add: sameType_eq split: sum.splits)
  have frame: "fst (check_ref h r e expected) = check (h ! r) e expected
       \<and> (\<forall>q<length h. snd (check_ref h r e expected) ! q = h ! q)"
    if "r < length h" for h r
  proof -
    from infer_ref_infer [OF that] obtain zs
      where "infer_ref h r e = (infer (h ! r) e, h @ zs)" by blast
    from check_ref_of [OF this]
    have "check_ref h r e expected = (check (h ! r) e expected, h @ zs)" .
    then show ?thesis by (simp add: nth_append del: check.simps check_ref.simps)
  qed
  from pure frame show ?thesis by blast
qed

theorem check_rule_witness:
  "(0::nat) < length [Map.empty :: Context]
   \<and> check Map.empty (Fun ''x'' Number (Var ''x'') :: int Expr) (Function Number Number)
       = Inr ()
   \<and> check Map.empty (Fun ''x'' Number (Var ''x'') :: int Expr) (Function Boolean Boolean)
       = Inl (TypeMismatch (Function Boolean Boolean) (Function Number Number))
   \<and> check Map.empty (Var ''x'' :: int Expr) Number = Inl (UnboundVariable ''x'')
   \<and> fst (check_ref [Map.empty] 0 (Fun ''x'' Number (Var ''x'') :: int Expr)
        (Function Boolean Boolean))
       = Inl (TypeMismatch (Function Boolean Boolean) (Function Number Number))
   \<and> lookup_ref
        (snd (check_ref [Map.empty] 0 (Fun ''x'' Number (Var ''x'') :: int Expr)
          (Function Boolean Boolean))) 0 ''x''
       = Inl (UnboundVariable ''x'')"
  using check_rule [of Map.empty "Fun ''x'' Number (Var ''x'') :: int Expr"
      "Function Number Number"]
    check_rule [of Map.empty "Fun ''x'' Number (Var ''x'') :: int Expr"
      "Function Boolean Boolean"]
    check_rule [of Map.empty "Var ''x'' :: int Expr" Number]
  by (simp add: extend_def lookup_def lookup_ref_def extend_ref_def new_Map_def Map_set_def)

text \<open>
  C5. For a context \<open>ctx\<close> allocated in the heap, \<^verbatim>\<open>extend\<close> returns (it has no failing
  branch) a reference other than \<open>ctx\<close> to a map with the contents of \<open>ctx\<close> and \<open>x\<close>
  bound to \<open>t\<close>. The map behind \<open>ctx\<close>, and every other map allocated before the call,
  is unchanged: each lookup in \<open>ctx\<close> answers as before, so a name unbound before is
  unbound after and a bound name keeps its type.
\<close>

theorem extend_ref_frame:
  assumes "ctx < length h"
  shows "case extend_ref h ctx x t of (extended, h') \<Rightarrow>
           extended = length h
         \<and> extended \<noteq> ctx
         \<and> h' ! extended = (h ! ctx)(x \<mapsto> t)
         \<and> h' ! extended = extend (h ! ctx) x t
         \<and> lookup_ref h' extended x = Inr t
         \<and> (\<forall>y. y \<noteq> x \<longrightarrow> lookup_ref h' extended y = lookup_ref h ctx y)
         \<and> h' ! ctx = h ! ctx
         \<and> (\<forall>y. lookup_ref h' ctx y = lookup_ref h ctx y)
         \<and> (\<forall>y. (h ! ctx) y = None \<longrightarrow> (h' ! ctx) y = None)
         \<and> (\<forall>q<length h. h' ! q = h ! q)"
  using assms
  by (simp add: extend_ref_def new_Map_def Map_set_def extend_def lookup_ref_def nth_append)

theorem extend_ref_frame_witness:
  "(0::nat) < length [Map.empty(''y'' \<mapsto> Number)]
   \<and> fst (extend_ref [Map.empty(''y'' \<mapsto> Number)] 0 ''x'' Boolean) = 1
   \<and> lookup_ref (snd (extend_ref [Map.empty(''y'' \<mapsto> Number)] 0 ''x'' Boolean)) 1 ''x''
       = Inr Boolean
   \<and> lookup_ref (snd (extend_ref [Map.empty(''y'' \<mapsto> Number)] 0 ''x'' Boolean)) 0 ''x''
       = Inl (UnboundVariable ''x'')
   \<and> lookup_ref (snd (extend_ref [Map.empty(''y'' \<mapsto> Number)] 0 ''x'' Boolean)) 0 ''y''
       = Inr Number"
  using extend_ref_frame [of 0 "[Map.empty(''y'' \<mapsto> Number)]" "''x''" Boolean]
  by (simp add: extend_ref_def new_Map_def Map_set_def lookup_ref_def extend_def)


text \<open>
  C7. \<open>Eq l r\<close> infers the type \<open>t\<close> of \<open>l\<close> and checks \<open>r\<close> against \<open>t\<close>: an error of
  either inference is the error of the node, a right operand of another type \<open>t'\<close> is
  rejected with \<open>TypeMismatch t t'\<close>, and a right operand of type \<open>t\<close> gives \<open>Boolean\<close>.
  Nothing in the rule looks at the shape of \<open>t\<close>, so two operands of one type, a
  function type included, compare to a \<open>Boolean\<close>, and two function types that differ
  are a mismatch like any other.
\<close>

theorem Eq_infer_rule:
  "infer ctx (Eq l r) =
     (case infer ctx l of Inl err \<Rightarrow> Inl err
      | Inr t \<Rightarrow> (case check ctx r t of Inl err \<Rightarrow> Inl err | Inr _ \<Rightarrow> Inr Boolean))
   \<and> (infer ctx l = Inr t \<and> infer ctx r = Inr t \<longrightarrow> infer ctx (Eq l r) = Inr Boolean)
   \<and> (infer ctx l = Inr (Function a b) \<and> infer ctx r = Inr (Function a b) \<longrightarrow>
        infer ctx (Eq l r) = Inr Boolean)
   \<and> (\<forall>err. infer ctx l = Inl err \<longrightarrow> infer ctx (Eq l r) = Inl err)
   \<and> (\<forall>err. infer ctx l = Inr t \<and> infer ctx r = Inl err \<longrightarrow> infer ctx (Eq l r) = Inl err)
   \<and> (\<forall>t'. infer ctx l = Inr t \<and> infer ctx r = Inr t' \<and> t' \<noteq> t \<longrightarrow>
        infer ctx (Eq l r) = Inl (TypeMismatch t t'))
   \<and> (\<forall>t'. infer ctx l = Inr t \<and> infer ctx r = Inr t' \<longrightarrow>
        (infer ctx (Eq l r) = Inr Boolean) = (t' = t))"
proof -
  have rule: "infer ctx (Eq l r) =
     (case infer ctx l of Inl err \<Rightarrow> Inl err
      | Inr t \<Rightarrow> (case check ctx r t of Inl err \<Rightarrow> Inl err | Inr _ \<Rightarrow> Inr Boolean))"
    by simp
  have same: "infer ctx l = Inr t \<and> infer ctx r = Inr t \<longrightarrow> infer ctx (Eq l r) = Inr Boolean"
    by (simp add: sameType_eq)
  have same_fun: "infer ctx l = Inr (Function a b) \<and> infer ctx r = Inr (Function a b) \<longrightarrow>
        infer ctx (Eq l r) = Inr Boolean"
    by (simp add: sameType_eq)
  have left_error: "\<forall>err. infer ctx l = Inl err \<longrightarrow> infer ctx (Eq l r) = Inl err"
    by simp
  have right_error: "\<forall>err. infer ctx l = Inr t \<and> infer ctx r = Inl err \<longrightarrow>
      infer ctx (Eq l r) = Inl err"
    by simp
  have mismatch: "\<forall>t'. infer ctx l = Inr t \<and> infer ctx r = Inr t' \<and> t' \<noteq> t \<longrightarrow>
        infer ctx (Eq l r) = Inl (TypeMismatch t t')"
  proof (intro allI impI)
    fix t'
    assume "infer ctx l = Inr t \<and> infer ctx r = Inr t' \<and> t' \<noteq> t"
    then have "infer ctx l = Inr t" and "infer ctx r = Inr t'" and "\<not> sameType t t'"
      by (auto simp: sameType_eq)
    then show "infer ctx (Eq l r) = Inl (TypeMismatch t t')"
      by simp
  qed
  have iff: "\<forall>t'. infer ctx l = Inr t \<and> infer ctx r = Inr t' \<longrightarrow>
        (infer ctx (Eq l r) = Inr Boolean) = (t' = t)"
  proof (intro allI impI)
    fix t'
    assume lr: "infer ctx l = Inr t \<and> infer ctx r = Inr t'"
    show "(infer ctx (Eq l r) = Inr Boolean) = (t' = t)"
    proof (cases "t' = t")
      case True
      with lr show ?thesis by (simp add: sameType_eq)
    next
      case False
      with lr mismatch have "infer ctx (Eq l r) = Inl (TypeMismatch t t')" by blast
      with False show ?thesis by simp
    qed
  qed
  from rule same same_fun left_error right_error mismatch iff
  show ?thesis by blast
qed

theorem Eq_infer_rule_witness:
  "infer Map.empty (Fun ''x'' Number (Var ''x'') :: int Expr) = Inr (Function Number Number)
   \<and> infer Map.empty (Fun ''y'' Number (Num 3) :: int Expr) = Inr (Function Number Number)
   \<and> infer Map.empty (Eq (Fun ''x'' Number (Var ''x'')) (Fun ''y'' Number (Num (3::int))))
       = Inr Boolean
   \<and> infer Map.empty (Bool True :: int Expr) = Inr Boolean
   \<and> infer Map.empty (Num 1 :: int Expr) = Inr Number
   \<and> Number \<noteq> Boolean
   \<and> infer Map.empty (Eq (Bool True) (Num (1::int))) = Inl (TypeMismatch Boolean Number)
   \<and> infer Map.empty (Fun ''y'' Number (Bool True) :: int Expr) = Inr (Function Number Boolean)
   \<and> infer Map.empty (Eq (Fun ''x'' Number (Var ''x'')) (Fun ''y'' Number (Bool True) :: int Expr))
       = Inl (TypeMismatch (Function Number Number) (Function Number Boolean))
   \<and> infer Map.empty (Eq (Num 1) (Var ''z'') :: int Expr) = Inl (UnboundVariable ''z'')"
  using Eq_infer_rule [of Map.empty "Fun ''x'' Number (Var ''x'') :: int Expr"
      "Fun ''y'' Number (Num 3)" "Function Number Number" Number Number]
    Eq_infer_rule [of Map.empty "Bool True :: int Expr" "Num 1" Boolean]
    Eq_infer_rule [of Map.empty "Fun ''x'' Number (Var ''x'') :: int Expr"
      "Fun ''y'' Number (Bool True)" "Function Number Number"]
    Eq_infer_rule [of Map.empty "Num 1 :: int Expr" "Var ''z''" Number]
  by (simp add: extend_def lookup_def)



text \<open>
  C9. For a context allocated in the heap, inferring the same expression a second time,
  on the heap that the first call left, gives the same type or the same error. The
  outcome is \<open>infer\<close> applied to the contents of the context and the expression, so it is
  the same on every heap and through every reference with these contents; and the call
  changes no map that was allocated before it.
\<close>

theorem infer_pure:
  assumes "ctx < length h"
  shows "fst (infer_ref (snd (infer_ref h ctx e)) ctx e) = fst (infer_ref h ctx e)
       \<and> fst (infer_ref h ctx e) = infer (h ! ctx) e
       \<and> (\<forall>q<length h. snd (infer_ref h ctx e) ! q = h ! q)
       \<and> (\<forall>h2 ctx2. ctx2 < length h2 \<and> h2 ! ctx2 = h ! ctx \<longrightarrow>
            fst (infer_ref h2 ctx2 e) = fst (infer_ref h ctx e))"
proof -
  from infer_ref_infer [OF assms] obtain zs
    where 1: "infer_ref h ctx e = (infer (h ! ctx) e, h @ zs)" by blast
  from assms have "ctx < length (h @ zs)" by simp
  from infer_ref_infer [OF this] assms obtain zs'
    where 2: "infer_ref (h @ zs) ctx e = (infer (h ! ctx) e, h @ zs @ zs')"
    by (auto simp: nth_append)
  have 3: "fst (infer_ref h2 ctx2 e) = infer (h ! ctx) e"
    if "ctx2 < length h2" "h2 ! ctx2 = h ! ctx" for h2 ctx2
    using infer_ref_infer [OF that(1), of e] that(2) by auto
  from 1 2 3 show ?thesis by (simp add: nth_append)
qed

theorem infer_pure_witness:
  "(0::nat) < length [Map.empty :: Context]
   \<and> fst (infer_ref [Map.empty] 0
        (Let_expr ''x'' (Num (5::int)) (Plus_expr (Var ''x'') (Var ''y''))))
       = Inl (UnboundVariable ''y'')
   \<and> fst (infer_ref
        (snd (infer_ref [Map.empty] 0
          (Let_expr ''x'' (Num (5::int)) (Plus_expr (Var ''x'') (Var ''y'')))))
        0 (Let_expr ''x'' (Num (5::int)) (Plus_expr (Var ''x'') (Var ''y''))))
       = Inl (UnboundVariable ''y'')"
  using infer_pure [of 0 "[Map.empty]"
      "Let_expr ''x'' (Num (5::int)) (Plus_expr (Var ''x'') (Var ''y''))"]
  by (simp add: extend_def lookup_def)

text \<open>
  C10. When the parameter of a \<open>LetFun\<close> has the name of the function, the body is
  checked in the context where that name is bound to the parameter type \<open>tx\<close>, because
  the extension with the parameter comes second; \<open>rest\<close> still sees the name at
  \<open>Function tx tRet\<close>. So a call of the name inside the body is a call of the parameter:
  it is rejected with \<open>NotAFunction tx\<close> when \<open>tx\<close> is not a function type.
\<close>

theorem LetFun_param_shadows_function:
  "infer ctx (LetFun f f tx tRet body rest) =
     (case check (ctx(f \<mapsto> tx)) body tRet of
        Inl err \<Rightarrow> Inl err
      | Inr _ \<Rightarrow> infer (ctx(f \<mapsto> Function tx tRet)) rest)
   \<and> extend (extend ctx f (Function tx tRet)) f tx = ctx(f \<mapsto> tx)
   \<and> infer (extend (extend ctx f (Function tx tRet)) f tx) (Var f :: 'a Expr) = Inr tx
   \<and> infer (extend ctx f (Function tx tRet)) (Var f :: 'a Expr) = Inr (Function tx tRet)
   \<and> ((\<forall>a r. tx \<noteq> Function a r) \<longrightarrow>
        infer ctx (LetFun f f tx tRet (Call (Var f) arg) rest) = Inl (NotAFunction tx))"
proof -
  have rule: "infer ctx (LetFun f f tx tRet body rest) =
     (case check (ctx(f \<mapsto> tx)) body tRet of
        Inl err \<Rightarrow> Inl err
      | Inr _ \<Rightarrow> infer (ctx(f \<mapsto> Function tx tRet)) rest)"
    by (simp add: Let_def extend_def del: check.simps split: sum.splits)
  have call: "infer ctx (LetFun f f tx tRet (Call (Var f) arg) rest) = Inl (NotAFunction tx)"
    if "\<forall>a r. tx \<noteq> Function a r"
    using that by (cases tx) (simp_all add: Let_def extend_def lookup_def)
  show ?thesis
    unfolding rule using call by (simp add: extend_def lookup_def)
qed

theorem LetFun_param_shadows_function_witness:
  "(\<forall>a r. Number \<noteq> Function a r)
   \<and> infer Map.empty
        (LetFun ''f'' ''f'' Number Number (Call (Var ''f'') (Num (1::int)))
           (Call (Var ''f'') (Num 8)))
       = Inl (NotAFunction Number)
   \<and> infer Map.empty
        (LetFun ''f'' ''f'' Number Number (Var ''f'') (Call (Var ''f'') (Num (8::int))))
       = Inr Number"
  using LetFun_param_shadows_function [of Map.empty "''f''" Number Number
      "Var ''f'' :: int Expr" "Call (Var ''f'') (Num 8)" "Num 1"]
  by (simp add: extend_def lookup_def)

end
